theory Spec2Isabelle
  imports Complex_Main
begin

section \<open>Data of the openLCA IPC schema, as the backend reads it\<close>

text \<open>
  The backend (\<^verbatim>\<open>src/backend/main.py\<close>) holds transient views of entities of the
  external engine. Every field of the engine's schema classes is optional in Python
  (\<^verbatim>\<open>None\<close> when absent), so each field read by the backend is an \<open>option\<close>.
  Python floats are modelled as \<open>real\<close>: the model covers finite amounts (comparison,
  \<^verbatim>\<open>abs\<close> and the test against zero are exact there) and computes quotients and
  products exactly; NaN and infinities are outside the model.
\<close>

type_synonym exn = string
  \<comment> \<open>a Python exception raised by the engine client, identified with \<^verbatim>\<open>str(e)\<close>\<close>

datatype http_exception = HTTPException (status_code: int) (detail: string)

datatype err = Http http_exception | Exc exn
  \<comment> \<open>what a Python block can raise: an \<^verbatim>\<open>HTTPException\<close> or any other exception\<close>

record ref =
  ref_id :: "string option"
  ref_name :: "string option"

record impact_value =
  impact_category :: "ref option"
  amount :: "real option"

record tech_flow =
  provider :: "ref option"
  flow :: "ref option"

record sankey_node =
  index :: "int option"
  tech_flow :: "tech_flow option"
  direct_result :: "real option"
  total_result :: "real option"

record sankey_edge =
  node_index :: "int option"
  provider_index :: "int option"
  upstream_share :: "real option"

record sankey_graph =
  nodes :: "sankey_node list option"
  edges :: "sankey_edge list option"
  root_index :: "int option"

record sankey_request =
  req_impact_category :: ref
  req_max_nodes :: int
  req_min_share :: real

record calculation_setup =
  target :: ref
  impact_method :: ref
  setup_amount :: real

record result_state =
  is_ready :: "bool option"
  state_error :: "string option"

record product_system =
  system_id :: "string option"
  system_name :: "string option"
  target_amount :: "real option"

record impact_category_entity =
  ref_unit :: "string option"

record impact_method_entity =
  impact_categories :: "ref list option"

datatype model_type = ProductSystem | ImpactCategory | ImpactMethod | Process | Flow

text \<open>
  A submitted calculation (\<^verbatim>\<open>olca.Result\<close>): the answers of the engine to the calls
  the backend makes on it. \<open>get_state k\<close> is the answer to the \<open>k\<close>-th poll (counted
  from 0); every call may raise. \<open>error\<close> is the error reported at submission, read
  with Python truthiness (\<^verbatim>\<open>if result.error\<close>).
\<close>

record result =
  error :: "string option"
  get_state :: "nat \<Rightarrow> exn + result_state"
  get_impact_categories :: "exn + ref list"
  get_total_impacts :: "exn + impact_value list"
  get_total_impact_value_of :: "ref \<Rightarrow> exn + impact_value option"
  get_sankey_graph :: "sankey_request \<Rightarrow> exn + sankey_graph option"
  dispose :: "exn + unit"

datatype json =
    JNull
  | JBool bool
  | JInt int
  | JFloat real
  | JStr string
  | JList "json list"
  | JDict "(string \<times> json) list"

text \<open>The connection handle (\<^verbatim>\<open>olca.Client\<close>): the engine's answers to the calls made on it.\<close>

record client =
  cl_get_product_system :: "string \<Rightarrow> exn + product_system option"
  cl_get_impact_method :: "string \<Rightarrow> exn + impact_method_entity option"
  cl_get_impact_category :: "string option \<Rightarrow> exn + impact_category_entity option"
  cl_get_descriptors :: "model_type \<Rightarrow> exn + ref list"
  cl_calculate :: "calculation_setup \<Rightarrow> exn + result"
  to_dict :: "ref \<Rightarrow> json"

text \<open>The calls made on the engine and the sleeps, in the order the backend performs them.\<close>

datatype call =
    NewClient
  | ClGet model_type "string option"
  | ClGetDescriptors model_type
  | ClCalculate calculation_setup
  | GetState
  | Sleep real
  | GetImpactCategories
  | GetTotalImpacts
  | GetTotalImpactValueOf ref
  | GetSankeyGraph sankey_request
  | Dispose

section \<open>Effects: a trace of calls and a result or a raised exception\<close>

type_synonym 'a io = "call list \<times> (err + 'a)"

definition ret :: "'a \<Rightarrow> 'a io" where
  "ret v = ([], Inr v)"

definition raise :: "err \<Rightarrow> 'a io" where
  "raise e = ([], Inl e)"

definition engine :: "call \<Rightarrow> exn + 'a \<Rightarrow> 'a io" where
  "engine c answer = ([c], case answer of Inl e \<Rightarrow> Inl (Exc e) | Inr v \<Rightarrow> Inr v)"

definition bnd :: "'a io \<Rightarrow> ('a \<Rightarrow> 'b io) \<Rightarrow> 'b io" where
  "bnd m f =
     (case snd m of
        Inl e \<Rightarrow> (fst m, Inl e)
      | Inr v \<Rightarrow> (fst m @ fst (f v), snd (f v)))"

text \<open>Python truthiness of an optional string: \<^verbatim>\<open>None\<close> and \<^verbatim>\<open>""\<close> are false.\<close>

definition truthy :: "string option \<Rightarrow> bool" where
  "truthy s = (s \<noteq> None \<and> s \<noteq> Some [])"

text \<open>\<^verbatim>\<open>x or 0.0\<close> on an optional float.\<close>

definition or_zero :: "real option \<Rightarrow> real" where
  "or_zero x = (case x of None \<Rightarrow> 0 | Some v \<Rightarrow> v)"

text \<open>\<^verbatim>\<open>s or d\<close> on an optional string.\<close>

definition or_str :: "string option \<Rightarrow> string \<Rightarrow> string" where
  "or_str s d = (if truthy s then the s else d)"

section \<open>Category resolution (\<^verbatim>\<open>_resolve_impact_category\<close>, lines 153-179)\<close>

text \<open>Lines 162-165: the dictionary from category id to amount; a later entry overwrites.\<close>

fun impacts_by_id :: "impact_value list \<Rightarrow> (string option \<rightharpoonup> real) \<Rightarrow> (string option \<rightharpoonup> real)" where
  "impacts_by_id [] m = m"
| "impacts_by_id (ti # tis) m =
     (case impact_category ti of
        None \<Rightarrow> impacts_by_id tis m
      | Some c \<Rightarrow> impacts_by_id tis (m(ref_id c \<mapsto> or_zero (amount ti))))"

text \<open>Line 170: \<^verbatim>\<open>abs(impacts_by_id.get(cat.id, 0.0))\<close>.\<close>

definition cat_amount :: "(string option \<rightharpoonup> real) \<Rightarrow> ref \<Rightarrow> real" where
  "cat_amount m cat = \<bar>case m (ref_id cat) of None \<Rightarrow> 0 | Some a \<Rightarrow> a\<bar>"

text \<open>Lines 167-173: the loop keeping the first category of strictly larger amount.\<close>

fun best_loop :: "(string option \<rightharpoonup> real) \<Rightarrow> ref list \<Rightarrow> ref option \<times> real \<Rightarrow> ref option \<times> real" where
  "best_loop m [] acc = acc"
| "best_loop m (cat # cats) (best_cat, best_amount) =
     (if cat_amount m cat > best_amount
      then best_loop m cats (Some cat, cat_amount m cat)
      else best_loop m cats (best_cat, best_amount))"

definition resolve_impact_category :: "result \<Rightarrow> ref list \<Rightarrow> string option \<Rightarrow> ref option io" where
  "resolve_impact_category res impact_cats impact_category_id =
     (case (if truthy impact_category_id
            then find (\<lambda>cat. ref_id cat = impact_category_id) impact_cats
            else None) of
        Some cat \<Rightarrow> ret (Some cat)
      | None \<Rightarrow>
          bnd (engine GetTotalImpacts (get_total_impacts res)) (\<lambda>total_impacts_list.
            case fst (best_loop (impacts_by_id total_impacts_list Map.empty) impact_cats (None, 0)) of
              Some best_cat \<Rightarrow> ret (Some best_cat)
            | None \<Rightarrow> ret (case impact_cats of [] \<Rightarrow> None | c # _ \<Rightarrow> Some c)))"

section \<open>Result polling (\<^verbatim>\<open>_wait_for_result\<close>, lines 135-150)\<close>

text \<open>
  The \<^verbatim>\<open>while waited < max_wait\<close> loop. \<open>waited\<close> is the accumulated sleep in
  seconds, \<open>k\<close> the number of polls made so far. Each iteration polls once; a state
  that is ready returns, a state with an error raises HTTP 500, any other state sleeps
  half a second. Leaving the loop raises HTTP 504.
\<close>

lemma half_second_step:
  assumes "waited < real_of_int max_wait"
  shows "nat \<lceil>2 * (real_of_int max_wait - (waited + 1 / 2))\<rceil>
         < nat \<lceil>2 * (real_of_int max_wait - waited)\<rceil>"
proof -
  have "2 * (real_of_int max_wait - (waited + 1 / 2)) = 2 * (real_of_int max_wait - waited) - 1"
    by (simp add: algebra_simps)
  then have "\<lceil>2 * (real_of_int max_wait - (waited + 1 / 2))\<rceil>
             = \<lceil>2 * (real_of_int max_wait - waited)\<rceil> - 1"
    by (simp only: ceiling_diff_one)
  moreover have "0 < \<lceil>2 * (real_of_int max_wait - waited)\<rceil>"
    using assms by simp
  ultimately show ?thesis by simp
qed

function wait_loop :: "result \<Rightarrow> int \<Rightarrow> real \<Rightarrow> nat \<Rightarrow> unit io" where
  "wait_loop res max_wait waited k =
     (if waited < real_of_int max_wait then
        (case get_state res k of
           Inl e \<Rightarrow> ([GetState], Inl (Exc e))
         | Inr state \<Rightarrow>
             if is_ready state = Some True then ([GetState], Inr ())
             else if truthy (state_error state)
             then ([GetState],
                   Inl (Http (HTTPException 500 (''Calculation error: '' @ the (state_error state)))))
             else (GetState # Sleep (1 / 2) # fst (wait_loop res max_wait (waited + 1 / 2) (Suc k)),
                   snd (wait_loop res max_wait (waited + 1 / 2) (Suc k))))
      else ([], Inl (Http (HTTPException 504 ''Calculation timed out''))))"
  by pat_completeness auto
termination
  apply (relation "measure (\<lambda>(res, max_wait, waited, k). nat \<lceil>2 * (real_of_int max_wait - waited)\<rceil>)")
   apply simp
  apply (simp_all only: in_measure prod.case)
  apply (rule half_second_step, assumption)+
  done

declare wait_loop.simps [simp del]

definition wait_for_result :: "result \<Rightarrow> int \<Rightarrow> unit io" where
  "wait_for_result res max_wait = wait_loop res max_wait 0 0"

section \<open>Connection handle and the small endpoints (lines 37-132)\<close>

text \<open>
  The module-level variable \<^verbatim>\<open>client\<close> and what \<^verbatim>\<open>olca.Client(8080)\<close> does when
  it is called: it returns a handle or raises.
\<close>

record server =
  client_var :: "client option"
  new_client :: "exn + client"

definition get_client :: "server \<Rightarrow> client option \<times> server \<times> call list" where
  "get_client s =
     (case client_var s of
        Some c \<Rightarrow> (Some c, s, [])
      | None \<Rightarrow>
          (case new_client s of
             Inl e \<Rightarrow> (None, s, [NewClient])
           | Inr c \<Rightarrow> (Some c, s\<lparr>client_var := Some c\<rparr>, [NewClient])))"

type_synonym response = "call list \<times> (http_exception + json)"

definition not_connected :: http_exception where
  "not_connected = HTTPException 503 ''openLCA not connected''"

definition get_status :: "server \<Rightarrow> response" where
  "get_status s =
     (case get_client s of
        (Some cl, s', tr) \<Rightarrow>
          (tr, Inr (JDict [(''status'', JStr ''connected''), (''version'', JStr ''2.6.0'')]))
      | (None, s', tr) \<Rightarrow> (tr, Inr (JDict [(''status'', JStr ''disconnected'')])))"

definition type_map :: "string \<Rightarrow> model_type option" where
  "type_map model_type =
     (if model_type = ''ProductSystem'' then Some ProductSystem
      else if model_type = ''ImpactCategory'' then Some ImpactCategory
      else if model_type = ''ImpactMethod'' then Some ImpactMethod
      else if model_type = ''Process'' then Some Process
      else if model_type = ''Flow'' then Some Flow
      else None)"

definition get_descriptors :: "server \<Rightarrow> string \<Rightarrow> response" where
  "get_descriptors s model_type =
     (case get_client s of
        (None, s', tr) \<Rightarrow> (tr, Inl not_connected)
      | (Some cl, s', tr) \<Rightarrow>
          (case type_map model_type of
             None \<Rightarrow> (tr, Inr (JList []))
           | Some schema_type \<Rightarrow>
               (case cl_get_descriptors cl schema_type of
                  Inl e \<Rightarrow> (tr @ [ClGetDescriptors schema_type], Inl (HTTPException 500 e))
                | Inr descriptors \<Rightarrow>
                    (tr @ [ClGetDescriptors schema_type], Inr (JList (map (to_dict cl) descriptors))))))"

definition jstr_opt :: "string option \<Rightarrow> json" where
  "jstr_opt s = (case s of None \<Rightarrow> JNull | Some v \<Rightarrow> JStr v)"

text \<open>
  Lines 106-112 and \<^verbatim>\<open>_get_ref_unit\<close> (lines 182-190): fetch the full impact category;
  every exception of the fetch is swallowed and the unit is then the empty string.
\<close>

definition get_ref_unit :: "client \<Rightarrow> ref \<Rightarrow> string io" where
  "get_ref_unit cl impact_ref =
     ([ClGet ImpactCategory (ref_id impact_ref)],
      Inr (case cl_get_impact_category cl (ref_id impact_ref) of
             Inr (Some full_cat) \<Rightarrow> or_str (ref_unit full_cat) ''''
           | _ \<Rightarrow> ''''))"

fun categories_loop :: "client \<Rightarrow> ref list \<Rightarrow> call list \<times> json list" where
  "categories_loop cl [] = ([], [])"
| "categories_loop cl (cat_ref # rest) =
     (fst (get_ref_unit cl cat_ref) @ fst (categories_loop cl rest),
      JDict [(''@id'', jstr_opt (ref_id cat_ref)),
             (''name'', jstr_opt (ref_name cat_ref)),
             (''refUnit'', JStr (case snd (get_ref_unit cl cat_ref) of Inr u \<Rightarrow> u | Inl _ \<Rightarrow> ''''))]
        # snd (categories_loop cl rest))"

definition get_method_categories :: "server \<Rightarrow> string \<Rightarrow> response" where
  "get_method_categories s method_id =
     (case get_client s of
        (None, s', tr) \<Rightarrow> (tr, Inl not_connected)
      | (Some cl, s', tr) \<Rightarrow>
          (case cl_get_impact_method cl method_id of
             Inl e \<Rightarrow> (tr @ [ClGet ImpactMethod (Some method_id)], Inl (HTTPException 500 e))
           | Inr None \<Rightarrow> (tr @ [ClGet ImpactMethod (Some method_id)], Inr (JList []))
           | Inr (Some method) \<Rightarrow>
               (case impact_categories method of
                  None \<Rightarrow> (tr @ [ClGet ImpactMethod (Some method_id)], Inr (JList []))
                | Some cats \<Rightarrow>
                    (tr @ [ClGet ImpactMethod (Some method_id)] @ fst (categories_loop cl cats),
                     Inr (JList (snd (categories_loop cl cats)))))))"

definition empty_result :: json where
  "empty_result =
     JDict [(''nodes'', JList []),
            (''links'', JList []),
            (''totalImpact'', JInt 0),
            (''impactUnit'', JStr ''''),
            (''impactCategory'', JStr ''''),
            (''rootIndex'', JInt 0)]"

section \<open>Response shaping (\<^verbatim>\<open>get_sankey\<close>, lines 291-351)\<close>

text \<open>Line 292: \<^verbatim>\<open>abs_total = abs(total_impact) if total_impact != 0 else 1.0\<close>.\<close>

definition abs_total :: "real \<Rightarrow> real" where
  "abs_total total_impact = (if total_impact \<noteq> 0 then \<bar>total_impact\<bar> else 1)"

text \<open>Lines 318-319: \<^verbatim>\<open>abs(x / abs_total) * 100 if abs_total != 0 else 0\<close>.\<close>

definition pct :: "real \<Rightarrow> real \<Rightarrow> json" where
  "pct x divisor = (if divisor \<noteq> 0 then JFloat (\<bar>x / divisor\<bar> * 100) else JInt 0)"

text \<open>Line 333: \<^verbatim>\<open>abs(share * abs_total) if abs_total != 0 else 0.001\<close>.\<close>

definition link_value :: "real \<Rightarrow> real \<Rightarrow> json" where
  "link_value share divisor = (if divisor \<noteq> 0 then JFloat \<bar>share * divisor\<bar> else JFloat (1 / 1000))"

text \<open>Lines 300-308: the names read from the node's technosphere flow.\<close>

definition provider_name :: "sankey_node \<Rightarrow> string" where
  "provider_name node =
     (case tech_flow node of
        None \<Rightarrow> ''Unknown''
      | Some tf \<Rightarrow> (case provider tf of None \<Rightarrow> ''Unknown'' | Some p \<Rightarrow> or_str (ref_name p) ''Unknown''))"

definition process_id :: "sankey_node \<Rightarrow> string" where
  "process_id node =
     (case tech_flow node of
        None \<Rightarrow> ''''
      | Some tf \<Rightarrow> (case provider tf of None \<Rightarrow> '''' | Some p \<Rightarrow> or_str (ref_id p) ''''))"

definition flow_name :: "sankey_node \<Rightarrow> string" where
  "flow_name node =
     (case tech_flow node of
        None \<Rightarrow> ''''
      | Some tf \<Rightarrow> (case flow tf of None \<Rightarrow> '''' | Some f \<Rightarrow> or_str (ref_name f) ''''))"

text \<open>Lines 310-322: the dictionary appended for one node.\<close>

definition node_dict :: "real \<Rightarrow> int option \<Rightarrow> sankey_node \<Rightarrow> json" where
  "node_dict divisor root_ix node =
     JDict [(''name'', JStr (provider_name node)),
            (''flowName'', JStr (flow_name node)),
            (''direct'', JFloat (or_zero (direct_result node))),
            (''upstream'', JFloat (or_zero (total_result node))),
            (''directPct'', pct (or_zero (direct_result node)) divisor),
            (''upstreamPct'', pct (or_zero (total_result node)) divisor),
            (''processId'', JStr (process_id node)),
            (''isRoot'', JBool (index node = root_ix))]"

text \<open>
  Lines 294-322: the loop over \<^verbatim>\<open>enumerate(sankey_graph.nodes)\<close>; \<open>i\<close> is the position,
  the accumulator is \<^verbatim>\<open>(nodes_data, index_to_pos)\<close>.
\<close>

fun nodes_loop ::
  "real \<Rightarrow> int option \<Rightarrow> sankey_node list \<Rightarrow> nat \<Rightarrow> json list \<times> (int option \<rightharpoonup> nat)
   \<Rightarrow> json list \<times> (int option \<rightharpoonup> nat)" where
  "nodes_loop divisor root_ix [] i acc = acc"
| "nodes_loop divisor root_ix (node # rest) i (nodes_data, index_to_pos) =
     nodes_loop divisor root_ix rest (Suc i)
       (nodes_data @ [node_dict divisor root_ix node], index_to_pos(index node \<mapsto> i))"

text \<open>Lines 335-340: the dictionary appended for one kept edge.\<close>

definition link_dict :: "real \<Rightarrow> nat \<Rightarrow> nat \<Rightarrow> sankey_edge \<Rightarrow> json" where
  "link_dict divisor source_pos target_pos edge =
     JDict [(''source'', JInt (int source_pos)),
            (''target'', JInt (int target_pos)),
            (''value'', link_value (or_zero (upstream_share edge)) divisor),
            (''share'', JFloat (or_zero (upstream_share edge)))]"

text \<open>Lines 327-340: the loop over the edges; the accumulator is \<^verbatim>\<open>links_data\<close>.\<close>

fun links_loop :: "real \<Rightarrow> (int option \<rightharpoonup> nat) \<Rightarrow> sankey_edge list \<Rightarrow> json list \<Rightarrow> json list" where
  "links_loop divisor index_to_pos [] links_data = links_data"
| "links_loop divisor index_to_pos (edge # rest) links_data =
     (case index_to_pos (provider_index edge) of
        None \<Rightarrow> links_loop divisor index_to_pos rest links_data
      | Some source_pos \<Rightarrow>
          (case index_to_pos (node_index edge) of
             None \<Rightarrow> links_loop divisor index_to_pos rest links_data
           | Some target_pos \<Rightarrow>
               if source_pos \<noteq> target_pos
               then links_loop divisor index_to_pos rest
                      (links_data @ [link_dict divisor source_pos target_pos edge])
               else links_loop divisor index_to_pos rest links_data))"

text \<open>
  Lines 291-351, for a graph whose node list \<open>ns\<close> is not empty: the response built from
  the total impact, the unit, the target category and the graph.
\<close>

definition shape_response :: "real \<Rightarrow> string \<Rightarrow> ref \<Rightarrow> sankey_graph \<Rightarrow> sankey_node list \<Rightarrow> json" where
  "shape_response total_impact runit target_impact g ns =
     (let shaped = nodes_loop (abs_total total_impact) (root_index g) ns 0 ([], Map.empty);
          links_data = (case edges g of
                          None \<Rightarrow> []
                        | Some es \<Rightarrow> links_loop (abs_total total_impact) (snd shaped) es [])
      in JDict [(''nodes'', JList (fst shaped)),
                (''links'', JList links_data),
                (''totalImpact'', JFloat total_impact),
                (''impactUnit'', JStr (if runit \<noteq> [] then runit else or_str (ref_name target_impact) ''impact'')),
                (''impactCategory'', jstr_opt (ref_name target_impact)),
                (''rootIndex'', JInt (case snd shaped (root_index g) of None \<Rightarrow> 0 | Some p \<Rightarrow> int p))])"

section \<open>The Sankey endpoint (\<^verbatim>\<open>get_sankey\<close>, lines 193-357)\<close>

text \<open>\<^verbatim>\<open>schema.Ref(id=m.id, name=m.name)\<close> and \<^verbatim>\<open>system.to_ref()\<close>.\<close>

definition mk_ref :: "ref \<Rightarrow> ref" where
  "mk_ref m = \<lparr>ref_id = ref_id m, ref_name = ref_name m\<rparr>"

definition to_ref :: "product_system \<Rightarrow> ref" where
  "to_ref system = \<lparr>ref_id = system_id system, ref_name = system_name system\<rparr>"

text \<open>Lines 226-233, for a descriptor list \<open>m0 # rest\<close>: the matching descriptor, else the first.\<close>

definition resolve_method :: "ref \<Rightarrow> ref list \<Rightarrow> string option \<Rightarrow> ref" where
  "resolve_method m0 rest impact_method_id =
     (case (if truthy impact_method_id
            then find (\<lambda>m. ref_id m = impact_method_id) (m0 # rest)
            else None) of
        Some m \<Rightarrow> mk_ref m
      | None \<Rightarrow> mk_ref m0)"

text \<open>Lines 238-242; \<^verbatim>\<open>system.target_amount or 1.0\<close> is 1.0 for \<^verbatim>\<open>None\<close> and for 0.\<close>

definition mk_setup :: "product_system \<Rightarrow> ref \<Rightarrow> calculation_setup" where
  "mk_setup system method_ref =
     \<lparr>target = to_ref system,
      impact_method = method_ref,
      setup_amount = (case target_amount system of
                        None \<Rightarrow> 1
                      | Some a \<Rightarrow> if a = 0 then 1 else a)\<rparr>"

text \<open>Lines 269-351: from the resolved target category to the response.\<close>

definition sankey_of_target :: "client \<Rightarrow> result \<Rightarrow> ref \<Rightarrow> int \<Rightarrow> real \<Rightarrow> json io" where
  "sankey_of_target cl res target_impact max_nodes min_share =
     bnd (engine (GetTotalImpactValueOf target_impact) (get_total_impact_value_of res target_impact))
       (\<lambda>total_impact_value.
     bnd (get_ref_unit cl target_impact) (\<lambda>runit.
     bnd (engine (GetSankeyGraph \<lparr>req_impact_category = target_impact,
                                  req_max_nodes = max_nodes,
                                  req_min_share = min_share / 100\<rparr>)
            (get_sankey_graph res \<lparr>req_impact_category = target_impact,
                                   req_max_nodes = max_nodes,
                                   req_min_share = min_share / 100\<rparr>)) (\<lambda>graph.
     bnd (engine Dispose (dispose res)) (\<lambda>_.
       case graph of
         None \<Rightarrow> ret empty_result
       | Some g \<Rightarrow>
           (case nodes g of
              None \<Rightarrow> ret empty_result
            | Some [] \<Rightarrow> ret empty_result
            | Some (n # ns) \<Rightarrow>
                ret (shape_response
                       (case total_impact_value of None \<Rightarrow> 0 | Some v \<Rightarrow> or_zero (amount v))
                       runit target_impact g (n # ns)))))))"

text \<open>Lines 244-265: from the submitted calculation to the target category.\<close>

definition sankey_of_result ::
  "client \<Rightarrow> result \<Rightarrow> string option \<Rightarrow> int \<Rightarrow> real \<Rightarrow> json io" where
  "sankey_of_result cl res impact_category_id max_nodes min_share =
     (if truthy (error res) then ret empty_result
      else
        bnd (wait_for_result res 120) (\<lambda>_.
        bnd (engine GetImpactCategories (get_impact_categories res)) (\<lambda>impact_cats.
          if impact_cats = [] then bnd (engine Dispose (dispose res)) (\<lambda>_. ret empty_result)
          else
            bnd (resolve_impact_category res impact_cats impact_category_id) (\<lambda>target.
              case target of
                None \<Rightarrow> bnd (engine Dispose (dispose res)) (\<lambda>_. ret empty_result)
              | Some target_impact \<Rightarrow>
                  sankey_of_target cl res target_impact max_nodes min_share))))"

text \<open>Lines 212-351: the body of the \<^verbatim>\<open>try\<close> block.\<close>

definition get_sankey_try ::
  "client \<Rightarrow> string \<Rightarrow> string option \<Rightarrow> string option \<Rightarrow> int \<Rightarrow> real \<Rightarrow> json io" where
  "get_sankey_try cl sid impact_method_id impact_category_id max_nodes min_share =
     bnd (engine (ClGet ProductSystem (Some sid)) (cl_get_product_system cl sid)) (\<lambda>found.
       case found of
         None \<Rightarrow> raise (Http (HTTPException 404 ''Product system not found''))
       | Some system \<Rightarrow>
           bnd (engine (ClGetDescriptors ImpactMethod) (cl_get_descriptors cl ImpactMethod))
             (\<lambda>impact_methods.
               case impact_methods of
                 [] \<Rightarrow> ret empty_result
               | m0 # rest \<Rightarrow>
                   bnd (engine (ClCalculate (mk_setup system (resolve_method m0 rest impact_method_id)))
                          (cl_calculate cl (mk_setup system (resolve_method m0 rest impact_method_id))))
                     (\<lambda>res. sankey_of_result cl res impact_category_id max_nodes min_share)))"

text \<open>
  The endpoint: the connection check, the \<^verbatim>\<open>try\<close> block, and the handlers that
  re-raise an \<^verbatim>\<open>HTTPException\<close> and turn any other exception into HTTP 500.
\<close>

definition get_sankey ::
  "server \<Rightarrow> string \<Rightarrow> string option \<Rightarrow> string option \<Rightarrow> int \<Rightarrow> real \<Rightarrow> response" where
  "get_sankey s sid impact_method_id impact_category_id max_nodes min_share =
     (case get_client s of
        (None, s', tr) \<Rightarrow> (tr, Inl not_connected)
      | (Some cl, s', tr) \<Rightarrow>
          (case get_sankey_try cl sid impact_method_id impact_category_id max_nodes min_share of
             (tr', Inl (Http h)) \<Rightarrow> (tr @ tr', Inl h)
           | (tr', Inl (Exc e)) \<Rightarrow> (tr @ tr', Inl (HTTPException 500 e))
           | (tr', Inr body) \<Rightarrow> (tr @ tr', Inr body)))"

section \<open>Reading a response\<close>

text \<open>\<^verbatim>\<open>d[key]\<close> on a JSON object, and the list of its keys.\<close>

definition field :: "string \<Rightarrow> json \<Rightarrow> json option" where
  "field key j = (case j of JDict kvs \<Rightarrow> map_of kvs key | _ \<Rightarrow> None)"

definition keys :: "json \<Rightarrow> string list option" where
  "keys j = (case j of JDict kvs \<Rightarrow> Some (map fst kvs) | _ \<Rightarrow> None)"

text \<open>The trace of \<open>k\<close> polls that each found the calculation still running.\<close>

definition pending_polls :: "nat \<Rightarrow> call list" where
  "pending_polls k = concat (replicate k [GetState, Sleep (1 / 2)])"

text \<open>The answer to poll \<open>k\<close> is a state that is neither ready nor in error.\<close>

definition poll_pending :: "result \<Rightarrow> nat \<Rightarrow> bool" where
  "poll_pending res k =
     (case get_state res k of
        Inl e \<Rightarrow> False
      | Inr state \<Rightarrow> is_ready state \<noteq> Some True \<and> \<not> truthy (state_error state))"

section \<open>Example engines\<close>

text \<open>
  Concrete answers of an engine, on which the theorems below are instantiated: two
  impact categories, a graph of two nodes whose engine indices are 7 (the root) and 3,
  and three edges of which only the first joins two different returned nodes.
\<close>

definition cat_climate :: ref where
  "cat_climate = \<lparr>ref_id = Some ''c1'', ref_name = Some ''Climate change''\<rparr>"

definition cat_water :: ref where
  "cat_water = \<lparr>ref_id = Some ''c2'', ref_name = Some ''Water use''\<rparr>"

definition cat_blank :: ref where
  "cat_blank = \<lparr>ref_id = Some '''', ref_name = Some ''Draft''\<rparr>"

definition demo_total_impacts :: "impact_value list" where
  "demo_total_impacts =
     [\<lparr>impact_category = Some cat_climate, amount = Some 2\<rparr>,
      \<lparr>impact_category = Some cat_water, amount = Some (- 5)\<rparr>]"

definition node_root :: sankey_node where
  "node_root =
     \<lparr>index = Some 7,
      tech_flow = Some \<lparr>provider = Some \<lparr>ref_id = Some ''p1'', ref_name = Some ''Bottling''\<rparr>,
                        flow = Some \<lparr>ref_id = Some ''f1'', ref_name = Some ''Bottle''\<rparr>\<rparr>,
      direct_result = Some 1,
      total_result = Some (- 5)\<rparr>"

definition node_upstream :: sankey_node where
  "node_upstream =
     \<lparr>index = Some 3, tech_flow = None, direct_result = Some (- 6), total_result = Some (- 6)\<rparr>"

definition demo_graph :: sankey_graph where
  "demo_graph =
     \<lparr>nodes = Some [node_root, node_upstream],
      edges = Some [\<lparr>node_index = Some 7, provider_index = Some 3, upstream_share = Some (4 / 5)\<rparr>,
                    \<lparr>node_index = Some 7, provider_index = Some 9, upstream_share = Some (1 / 10)\<rparr>,
                    \<lparr>node_index = Some 7, provider_index = Some 7, upstream_share = None\<rparr>],
      root_index = Some 7\<rparr>"

definition running :: result_state where
  "running = \<lparr>is_ready = Some False, state_error = None\<rparr>"

definition ready :: result_state where
  "ready = \<lparr>is_ready = Some True, state_error = None\<rparr>"

definition out_of_memory :: result_state where
  "out_of_memory = \<lparr>is_ready = Some False, state_error = Some ''out of memory''\<rparr>"

definition demo_result :: result where
  "demo_result =
     \<lparr>error = None,
      get_state = (\<lambda>k. Inr (if k < 3 then running else ready)),
      get_impact_categories = Inr [cat_climate, cat_water],
      get_total_impacts = Inr demo_total_impacts,
      get_total_impact_value_of = (\<lambda>c. Inr (Some \<lparr>impact_category = Some c, amount = Some (- 5)\<rparr>)),
      get_sankey_graph = (\<lambda>req. Inr (Some demo_graph)),
      dispose = Inr ()\<rparr>"

definition failing_result :: result where
  "failing_result = demo_result\<lparr>get_state := (\<lambda>k. Inr (if k < 2 then running else out_of_memory))\<rparr>"

definition stuck_result :: result where
  "stuck_result = demo_result\<lparr>get_state := (\<lambda>k. Inr running)\<rparr>"

definition rejected_result :: result where
  "rejected_result = demo_result\<lparr>error := Some ''no such target''\<rparr>"

definition method_recipe :: ref where
  "method_recipe = \<lparr>ref_id = Some ''m1'', ref_name = Some ''ReCiPe''\<rparr>"

definition method_ef :: ref where
  "method_ef = \<lparr>ref_id = Some ''m2'', ref_name = Some ''EF 3.0''\<rparr>"

definition demo_system :: product_system where
  "demo_system = \<lparr>system_id = Some ''s1'', system_name = Some ''Bottle'', target_amount = Some 1\<rparr>"

definition demo_client :: client where
  "demo_client =
     \<lparr>cl_get_product_system = (\<lambda>i. Inr (Some demo_system)),
      cl_get_impact_method = (\<lambda>i. Inr None),
      cl_get_impact_category = (\<lambda>i. Inr (Some \<lparr>ref_unit = Some ''kg CO2 eq''\<rparr>)),
      cl_get_descriptors = (\<lambda>t. Inr [method_recipe, method_ef]),
      cl_calculate = (\<lambda>setup. Inr demo_result),
      to_dict = (\<lambda>r. JDict [(''@id'', jstr_opt (ref_id r)), (''name'', jstr_opt (ref_name r))])\<rparr>"

definition demo_server :: server where
  "demo_server = \<lparr>client_var = None, new_client = Inr demo_client\<rparr>"

definition offline_server :: server where
  "offline_server = \<lparr>client_var = None, new_client = Inl ''Connection refused''\<rparr>"

definition rejecting_server :: server where
  "rejecting_server =
     \<lparr>client_var = Some (demo_client\<lparr>cl_calculate := (\<lambda>setup. Inr rejected_result)\<rparr>),
      new_client = Inl ''unused''\<rparr>"

definition failing_server :: server where
  "failing_server =
     \<lparr>client_var = Some (demo_client\<lparr>cl_calculate := (\<lambda>setup. Inr failing_result)\<rparr>),
      new_client = Inl ''unused''\<rparr>"

definition empty_db_server :: server where
  "empty_db_server =
     \<lparr>client_var = Some (demo_client\<lparr>cl_get_descriptors := (\<lambda>t. Inr [])\<rparr>),
      new_client = Inl ''unused''\<rparr>"

section \<open>Unfolding the example engines\<close>

lemmas demo_defs = cat_climate_def cat_water_def cat_blank_def demo_total_impacts_def
  demo_result_def failing_result_def stuck_result_def rejected_result_def running_def ready_def
  out_of_memory_def

section \<open>Category resolution: the automatic choice\<close>




text \<open>
  What the dictionary of lines 162-165 holds for a key: the amount (\<^verbatim>\<open>None\<close> counting
  as 0) of the last total impact of that category id, and nothing when there is none.
\<close>

lemma find_app:
  "find P (xs @ ys) = (case find P xs of None \<Rightarrow> find P ys | Some x \<Rightarrow> Some x)"
  by (induction xs) simp_all

lemma impacts_by_id_last:
  "impacts_by_id tis m k =
     (case find (\<lambda>ti. \<exists>c. impact_category ti = Some c \<and> ref_id c = k) (rev tis) of
        Some ti \<Rightarrow> Some (or_zero (amount ti))
      | None \<Rightarrow> m k)"
proof (induction tis arbitrary: m)
  case Nil
  then show ?case by simp
next
  case (Cons ti tis)
  show ?case
    by (cases "impact_category ti") (auto simp: Cons.IH find_app split: option.splits)
qed



section \<open>Category resolution: the explicit choice\<close>

text \<open>
  Claim C5, as stated, fails for the empty id: line 155 tests the id for truthiness, so
  an id that is the empty string is treated as not supplied. With a category of id
  \<^verbatim>\<open>""\<close> first in the list and the id \<^verbatim>\<open>""\<close> supplied, the function returns the
  category of the largest absolute total impact, whose id is another one.
\<close>

theorem resolve_empty_id_counterexample:
  "ref_id ([cat_blank, cat_water] ! 0) = Some ''''
   \<and> resolve_impact_category demo_result [cat_blank, cat_water] (Some '''')
       = ([GetTotalImpacts], Inr (Some cat_water))
   \<and> ref_id cat_water \<noteq> Some ''''"
  by (simp add: resolve_impact_category_def truthy_def bnd_def engine_def ret_def demo_defs
      cat_amount_def or_zero_def)

text \<open>
  Claim C5, amended. For every non-empty supplied id and every category list containing a
  category of that id, \<^verbatim>\<open>_resolve_impact_category\<close> returns the first category of the list
  with that id, whatever the result holds, and without fetching the total impacts.
\<close>

theorem resolve_explicit_nonempty_id:
  assumes "cid = Some s" and "s \<noteq> []" and "\<exists>cat\<in>set cats. ref_id cat = cid"
  shows "\<exists>i<length cats.
           resolve_impact_category res cats cid = ([], Inr (Some (cats ! i)))
         \<and> ref_id (cats ! i) = cid
         \<and> (\<forall>j<i. ref_id (cats ! j) \<noteq> cid)"
proof -
  have t: "truthy cid" using assms(1,2) by (simp add: truthy_def)
  obtain c where c: "find (\<lambda>cat. ref_id cat = cid) cats = Some c"
    using assms(3) by (cases "find (\<lambda>cat. ref_id cat = cid) cats") (auto simp: find_None_iff)
  then obtain i where i: "i < length cats" "ref_id (cats ! i) = cid" "c = cats ! i"
    "\<forall>j<i. ref_id (cats ! j) \<noteq> cid"
    unfolding find_Some_iff by blast
  have "resolve_impact_category res cats cid = ([], Inr (Some c))"
    unfolding resolve_impact_category_def by (simp add: t c ret_def)
  then show ?thesis using i by blast
qed

text \<open>
  The theorem of C5 on the example categories and the id of the first one.
\<close>

theorem resolve_explicit_nonempty_id_witness:
  "resolve_impact_category demo_result [cat_climate, cat_water] (Some ''c1'')
     = ([], Inr (Some cat_climate))"
proof -
  have h3: "\<exists>cat\<in>set [cat_climate, cat_water]. ref_id cat = Some ''c1''"
    by (simp add: demo_defs)
  from resolve_explicit_nonempty_id[of "Some ''c1''" "''c1''" "[cat_climate, cat_water]" demo_result, OF refl _ h3]
  obtain i where i: "i < length [cat_climate, cat_water]"
    and r: "resolve_impact_category demo_result [cat_climate, cat_water] (Some ''c1'')
             = ([], Inr (Some ([cat_climate, cat_water] ! i)))"
    and m: "ref_id ([cat_climate, cat_water] ! i) = Some ''c1''"
    by auto
  have "i = 0 \<or> i = 1" using i by auto
  then have "i = 0" using m by (auto simp: demo_defs)
  then show ?thesis using r by simp
qed

section \<open>Result polling\<close>

lemma pending_polls_Suc: "pending_polls (Suc k) = pending_polls k @ [GetState, Sleep (1 / 2)]"
  unfolding pending_polls_def by (induction k) simp_all

lemma half_Suc: "real k / 2 + 1 / 2 = real (Suc k) / 2"
  by simp

lemma wait_loop_pending_step:
  assumes "k < 240" and "poll_pending res k"
  shows "wait_loop res 120 (real k / 2) k =
           (GetState # Sleep (1 / 2) # fst (wait_loop res 120 (real (Suc k) / 2) (Suc k)),
            snd (wait_loop res 120 (real (Suc k) / 2) (Suc k)))"
proof -
  have lt: "real k / 2 < real_of_int 120" using assms(1) by simp
  obtain st where st: "get_state res k = Inr st" "is_ready st \<noteq> Some True" "\<not> truthy (state_error st)"
    using assms(2) unfolding poll_pending_def by (cases "get_state res k") auto
  show ?thesis
    by (subst wait_loop.simps) (simp only: lt st half_Suc if_True if_False sum.case)
qed

lemma wait_loop_pending_prefix:
  assumes "k \<le> 240" and "\<forall>j<k. poll_pending res j"
  shows "wait_loop res 120 0 0 =
           (pending_polls k @ fst (wait_loop res 120 (real k / 2) k),
            snd (wait_loop res 120 (real k / 2) k))"
  using assms
proof (induction k)
  case 0
  then show ?case by (simp add: pending_polls_def)
next
  case (Suc k)
  then have IH: "wait_loop res 120 0 0 =
           (pending_polls k @ fst (wait_loop res 120 (real k / 2) k),
            snd (wait_loop res 120 (real k / 2) k))"
    by simp
  have step: "wait_loop res 120 (real k / 2) k =
           (GetState # Sleep (1 / 2) # fst (wait_loop res 120 (real (Suc k) / 2) (Suc k)),
            snd (wait_loop res 120 (real (Suc k) / 2) (Suc k)))"
    using Suc.prems by (intro wait_loop_pending_step) simp_all
  show ?case
    by (subst IH, subst (1 2) step) (simp only: fst_conv snd_conv pending_polls_Suc append_assoc append.simps)
qed

lemma wait_loop_ready:
  assumes "k < 240" and "get_state res k = Inr st" and "is_ready st = Some True"
  shows "wait_loop res 120 (real k / 2) k = ([GetState], Inr ())"
proof -
  have lt: "real k / 2 < real_of_int 120" using assms(1) by simp
  show ?thesis
    by (subst wait_loop.simps) (simp add: lt assms)
qed

lemma wait_loop_error:
  assumes "k < 240" and "get_state res k = Inr st" and "is_ready st \<noteq> Some True"
      and "truthy (state_error st)"
  shows "wait_loop res 120 (real k / 2) k =
           ([GetState], Inl (Http (HTTPException 500 (''Calculation error: '' @ the (state_error st)))))"
proof -
  have lt: "real k / 2 < real_of_int 120" using assms(1) by simp
  show ?thesis
    by (subst wait_loop.simps) (simp add: lt assms)
qed

lemma wait_loop_raises:
  assumes "k < 240" and "get_state res k = Inl e"
  shows "wait_loop res 120 (real k / 2) k = ([GetState], Inl (Exc e))"
proof -
  have lt: "real k / 2 < real_of_int 120" using assms(1) by simp
  show ?thesis
    by (subst wait_loop.simps) (simp add: lt assms)
qed

lemma wait_loop_timeout:
  "wait_loop res 120 (real 240 / 2) 240 = ([], Inl (Http (HTTPException 504 ''Calculation timed out'')))"
  by (subst wait_loop.simps) simp

lemma wait_loop_polls_bound:
  "i \<le> 240 \<Longrightarrow> length (filter (\<lambda>c. c = GetState) (fst (wait_loop res 120 (real i / 2) i))) \<le> 240 - i"
proof (induction "240 - i" arbitrary: i)
  case 0
  then have "i = 240" by simp
  then show ?case using wait_loop_timeout[of res] by simp
next
  case (Suc n)
  then have lt: "i < 240" by simp
  have lt': "real i / 2 < real_of_int 120" using lt by simp
  have IH: "length (filter (\<lambda>c. c = GetState) (fst (wait_loop res 120 (real (Suc i) / 2) (Suc i)))) \<le> 240 - Suc i"
    using Suc by (intro Suc.hyps(1)) simp_all
  show ?case
  proof (cases "get_state res i")
    case (Inl e)
    then show ?thesis using wait_loop_raises[OF lt Inl] lt by simp
  next
    case (Inr st)
    show ?thesis
    proof (cases "is_ready st = Some True")
      case True
      then show ?thesis using wait_loop_ready[OF lt Inr True] lt by simp
    next
      case nr: False
      show ?thesis
      proof (cases "truthy (state_error st)")
        case True
        then show ?thesis using wait_loop_error[OF lt Inr nr True] lt by simp
      next
        case False
        have "poll_pending res i" using Inr nr False by (simp add: poll_pending_def)
        from wait_loop_pending_step[OF lt this] IH lt show ?thesis by simp
      qed
    qed
  qed
qed

text \<open>
  Claim C3. \<^verbatim>\<open>_wait_for_result\<close> with the limit of 120 seconds polls at most 240 times.
  After \<open>k < 240\<close> polls that found the calculation running, each followed by a sleep of
  half a second, a ready state makes it return normally, and a state that is not ready and
  reports an error makes it raise HTTP 500 with that error in the detail. When all 240
  polls found the calculation running, it has slept 240 times half a second and raises
  HTTP 504.
\<close>

theorem wait_for_result_outcomes:
  "length (filter (\<lambda>c. c = GetState) (fst (wait_for_result res 120))) \<le> 240
   \<and> (\<forall>k st. k < 240 \<and> (\<forall>j<k. poll_pending res j) \<and> get_state res k = Inr st
               \<and> is_ready st = Some True
        \<longrightarrow> wait_for_result res 120 = (pending_polls k @ [GetState], Inr ()))
   \<and> (\<forall>k st. k < 240 \<and> (\<forall>j<k. poll_pending res j) \<and> get_state res k = Inr st
               \<and> is_ready st \<noteq> Some True \<and> truthy (state_error st)
        \<longrightarrow> wait_for_result res 120 =
              (pending_polls k @ [GetState],
               Inl (Http (HTTPException 500 (''Calculation error: '' @ the (state_error st))))))
   \<and> ((\<forall>j<240. poll_pending res j)
        \<longrightarrow> wait_for_result res 120 =
              (pending_polls 240, Inl (Http (HTTPException 504 ''Calculation timed out''))))"
proof (intro conjI allI impI)
  show "length (filter (\<lambda>c. c = GetState) (fst (wait_for_result res 120))) \<le> 240"
    using wait_loop_polls_bound[of 0 res] by (simp add: wait_for_result_def)
next
  fix k st
  assume a: "k < 240 \<and> (\<forall>j<k. poll_pending res j) \<and> get_state res k = Inr st \<and> is_ready st = Some True"
  then have "wait_loop res 120 (real k / 2) k = ([GetState], Inr ())"
    using wait_loop_ready[of k res st] by simp
  moreover have "wait_loop res 120 0 0 =
           (pending_polls k @ fst (wait_loop res 120 (real k / 2) k),
            snd (wait_loop res 120 (real k / 2) k))"
    using a wait_loop_pending_prefix[of k res] by simp
  ultimately show "wait_for_result res 120 = (pending_polls k @ [GetState], Inr ())"
    by (simp add: wait_for_result_def)
next
  fix k st
  assume a: "k < 240 \<and> (\<forall>j<k. poll_pending res j) \<and> get_state res k = Inr st
               \<and> is_ready st \<noteq> Some True \<and> truthy (state_error st)"
  then have "wait_loop res 120 (real k / 2) k =
     ([GetState], Inl (Http (HTTPException 500 (''Calculation error: '' @ the (state_error st)))))"
    using wait_loop_error[of k res st] by simp
  moreover have "wait_loop res 120 0 0 =
           (pending_polls k @ fst (wait_loop res 120 (real k / 2) k),
            snd (wait_loop res 120 (real k / 2) k))"
    using a wait_loop_pending_prefix[of k res] by simp
  ultimately show "wait_for_result res 120 =
              (pending_polls k @ [GetState],
               Inl (Http (HTTPException 500 (''Calculation error: '' @ the (state_error st)))))"
    by (simp add: wait_for_result_def)
next
  assume a: "\<forall>j<240. poll_pending res j"
  have "wait_loop res 120 0 0 =
           (pending_polls 240 @ fst (wait_loop res 120 (real 240 / 2) 240),
            snd (wait_loop res 120 (real 240 / 2) 240))"
    using a wait_loop_pending_prefix[of 240 res] by simp
  then show "wait_for_result res 120 =
              (pending_polls 240, Inl (Http (HTTPException 504 ''Calculation timed out'')))"
    by (simp only: wait_loop_timeout wait_for_result_def fst_conv snd_conv append_Nil2)
qed

text \<open>
  The theorem of C3 on three example results: ready at the fourth poll, in error at the
  third poll, and never ready.
\<close>

theorem wait_for_result_outcomes_witness:
  "wait_for_result demo_result 120 = (pending_polls 3 @ [GetState], Inr ())
   \<and> wait_for_result failing_result 120
       = (pending_polls 2 @ [GetState],
          Inl (Http (HTTPException 500 ''Calculation error: out of memory'')))
   \<and> wait_for_result stuck_result 120
       = (pending_polls 240, Inl (Http (HTTPException 504 ''Calculation timed out'')))
   \<and> length (filter (\<lambda>c. c = GetState) (fst (wait_for_result stuck_result 120))) \<le> 240"
proof -
  have p1: "\<forall>j<3. poll_pending demo_result j"
    by (simp add: poll_pending_def demo_defs truthy_def)
  have p2: "\<forall>j<2. poll_pending failing_result j"
    by (simp add: poll_pending_def demo_defs truthy_def)
  have p3: "\<forall>j<240. poll_pending stuck_result j"
    by (simp add: poll_pending_def demo_defs truthy_def)
  have s1: "get_state demo_result 3 = Inr ready" by (simp add: demo_defs)
  have s2: "get_state failing_result 2 = Inr out_of_memory" by (simp add: demo_defs)
  have r1: "is_ready ready = Some True" by (simp add: ready_def)
  have r2: "is_ready out_of_memory \<noteq> Some True" "truthy (state_error out_of_memory)"
    by (simp_all add: out_of_memory_def truthy_def)
  note thm1 = wait_for_result_outcomes[of demo_result, THEN conjunct2, THEN conjunct1, rule_format, of 3 ready]
  note thm2 = wait_for_result_outcomes[of failing_result, THEN conjunct2, THEN conjunct2, THEN conjunct1,
      rule_format, of 2 out_of_memory]
  note thm3 = wait_for_result_outcomes[of stuck_result, THEN conjunct2, THEN conjunct2, THEN conjunct2,
      rule_format]
  note thm4 = wait_for_result_outcomes[of stuck_result, THEN conjunct1]
  have "wait_for_result demo_result 120 = (pending_polls 3 @ [GetState], Inr ())"
    using thm1 p1 s1 r1 by simp
  moreover have "wait_for_result failing_result 120
       = (pending_polls 2 @ [GetState],
          Inl (Http (HTTPException 500 (''Calculation error: '' @ the (state_error out_of_memory)))))"
    using thm2 p2 s2 r2 by simp
  moreover have "wait_for_result stuck_result 120
       = (pending_polls 240, Inl (Http (HTTPException 504 ''Calculation timed out'')))"
    using thm3 p3 by simp
  moreover note thm4
  ultimately show ?thesis by (simp add: out_of_memory_def)
qed

section \<open>Response shaping\<close>

lemma nodes_loop_nodes:
  "fst (nodes_loop d r ns i (acc, m)) = acc @ map (node_dict d r) ns"
  by (induction ns arbitrary: i acc m) simp_all

lemma nodes_loop_pos:
  "snd (nodes_loop d r ns i (acc, m)) k = Some p \<Longrightarrow>
     m k = Some p \<or> (i \<le> p \<and> p < i + length ns \<and> index (ns ! (p - i)) = k)"
proof (induction ns arbitrary: i acc m)
  case Nil
  then show ?case by simp
next
  case (Cons n ns)
  from Cons.prems have
    "snd (nodes_loop d r ns (Suc i) (acc @ [node_dict d r n], m(index n \<mapsto> i))) k = Some p"
    by simp
  from Cons.IH[OF this] show ?case
  proof
    assume "(m(index n \<mapsto> i)) k = Some p"
    then show ?thesis by (cases "k = index n") auto
  next
    assume a: "Suc i \<le> p \<and> p < Suc i + length ns \<and> index (ns ! (p - Suc i)) = k"
    then have "p - i = Suc (p - Suc i)" by linarith
    then show ?thesis using a by simp
  qed
qed

lemma nodes_loop_dom:
  "snd (nodes_loop d r ns i (acc, m)) k = None \<longleftrightarrow> m k = None \<and> k \<notin> index ` set ns"
  by (induction ns arbitrary: i acc m) auto

lemma links_loop_kept:
  "links_loop d ip es acc =
     acc @ map (\<lambda>e. link_dict d (the (ip (provider_index e))) (the (ip (node_index e))) e)
              (filter (\<lambda>e. ip (provider_index e) \<noteq> None \<and> ip (node_index e) \<noteq> None
                          \<and> ip (provider_index e) \<noteq> ip (node_index e)) es)"
  by (induction es arbitrary: acc) (auto split: option.splits)


lemma field_node_dict:
  "field ''directPct'' (node_dict d r n) = Some (pct (or_zero (direct_result n)) d)"
  "field ''upstreamPct'' (node_dict d r n) = Some (pct (or_zero (total_result n)) d)"
  by (simp_all add: field_def node_dict_def)

lemma field_shape_response:
  "field ''nodes'' (shape_response t u c g ns) = Some (JList (map (node_dict (abs_total t) (root_index g)) ns))"
  "field ''links'' (shape_response t u c g ns) =
     Some (JList (case edges g of
                    None \<Rightarrow> []
                  | Some es \<Rightarrow> links_loop (abs_total t)
                      (snd (nodes_loop (abs_total t) (root_index g) ns 0 ([], Map.empty))) es []))"
  "field ''totalImpact'' (shape_response t u c g ns) = Some (JFloat t)"
  by (simp_all add: field_def shape_response_def Let_def nodes_loop_nodes)

lemma abs_total_pos: "0 < abs_total t"
  by (simp add: abs_total_def)

text \<open>
  Claim C9. The divisor \<^verbatim>\<open>abs_total\<close> of line 292 is strictly positive for every total
  impact: it is the absolute value of a total impact that is not zero, and 1 otherwise.
  So the guards of lines 318, 319 and 333 never take their \<^verbatim>\<open>else\<close> branch: every
  percentage is the quotient and every link value the product, and no division by zero
  occurs in the shaping.
\<close>

theorem abs_total_guards_unreachable:
  "0 < abs_total t
   \<and> abs_total t = (if t \<noteq> 0 then \<bar>t\<bar> else 1)
   \<and> pct x (abs_total t) = JFloat (\<bar>x / abs_total t\<bar> * 100)
   \<and> link_value share (abs_total t) = JFloat \<bar>share * abs_total t\<bar>
   \<and> field ''directPct'' (node_dict (abs_total t) r n)
       = Some (JFloat (\<bar>or_zero (direct_result n) / abs_total t\<bar> * 100))
   \<and> field ''upstreamPct'' (node_dict (abs_total t) r n)
       = Some (JFloat (\<bar>or_zero (total_result n) / abs_total t\<bar> * 100))
   \<and> field ''value'' (link_dict (abs_total t) sp tp e)
       = Some (JFloat \<bar>or_zero (upstream_share e) * abs_total t\<bar>)"
proof -
  have nz: "abs_total t \<noteq> 0" using abs_total_pos[of t] by simp
  have "abs_total t = (if t \<noteq> 0 then \<bar>t\<bar> else 1)"
    by (simp add: abs_total_def)
  moreover have "pct x (abs_total t) = JFloat (\<bar>x / abs_total t\<bar> * 100)" for x
    using nz by (simp add: pct_def)
  moreover have "link_value share (abs_total t) = JFloat \<bar>share * abs_total t\<bar>" for share
    using nz by (simp add: link_value_def)
  moreover have "field ''value'' (link_dict (abs_total t) sp tp e)
       = Some (link_value (or_zero (upstream_share e)) (abs_total t))"
    by (simp add: field_def link_dict_def)
  ultimately show ?thesis
    using abs_total_pos[of t] by (simp only: field_node_dict simp_thms)
qed

text \<open>
  Claim C2, amended. In the shaped response of total impact \<open>t\<close>, the node at every
  position has \<^verbatim>\<open>directPct\<close> and \<^verbatim>\<open>upstreamPct\<close> equal to the absolute value of its
  direct (total) result divided by \<open>\<bar>t\<bar>\<close>, times 100, when \<open>t\<close> is not zero; when
  \<open>t\<close> is zero the divisor is 1, so they are the absolute value of the direct (total)
  result times 100.
\<close>

theorem node_percentages:
  assumes "i < length ns"
  shows "\<exists>nds. field ''totalImpact'' (shape_response t u c g ns) = Some (JFloat t)
         \<and> field ''nodes'' (shape_response t u c g ns) = Some (JList nds)
         \<and> length nds = length ns
         \<and> field ''directPct'' (nds ! i)
             = Some (JFloat (if t \<noteq> 0 then \<bar>or_zero (direct_result (ns ! i)) / \<bar>t\<bar>\<bar> * 100
                             else \<bar>or_zero (direct_result (ns ! i))\<bar> * 100))
         \<and> field ''upstreamPct'' (nds ! i)
             = Some (JFloat (if t \<noteq> 0 then \<bar>or_zero (total_result (ns ! i)) / \<bar>t\<bar>\<bar> * 100
                             else \<bar>or_zero (total_result (ns ! i))\<bar> * 100))"
proof -
  let ?nds = "map (node_dict (abs_total t) (root_index g)) ns"
  have "field ''directPct'' (?nds ! i)
             = Some (JFloat (if t \<noteq> 0 then \<bar>or_zero (direct_result (ns ! i)) / \<bar>t\<bar>\<bar> * 100
                             else \<bar>or_zero (direct_result (ns ! i))\<bar> * 100))"
    using assms by (simp add: field_node_dict pct_def abs_total_def)
  moreover have "field ''upstreamPct'' (?nds ! i)
             = Some (JFloat (if t \<noteq> 0 then \<bar>or_zero (total_result (ns ! i)) / \<bar>t\<bar>\<bar> * 100
                             else \<bar>or_zero (total_result (ns ! i))\<bar> * 100))"
    using assms by (simp add: field_node_dict pct_def abs_total_def)
  moreover have "length ?nds = length ns" by simp
  ultimately show ?thesis using field_shape_response(1,3)[of t u c g ns] by blast
qed

text \<open>
  The theorem of C2 on the example graph and the total impact -5: the second node, of
  direct and total result -6, has both percentages equal to 120.
\<close>

theorem node_percentages_witness:
  "field ''directPct'' (node_dict (abs_total (- 5)) (Some 7) node_upstream) = Some (JFloat 120)
   \<and> field ''upstreamPct'' (node_dict (abs_total (- 5)) (Some 7) node_upstream) = Some (JFloat 120)"
proof -
  have h: "1 < length [node_root, node_upstream]" by simp
  from node_percentages[OF h, of "- 5" "''kg''" cat_water demo_graph]
  obtain nds where
    n: "field ''nodes'' (shape_response (- 5) ''kg'' cat_water demo_graph [node_root, node_upstream])
          = Some (JList nds)"
    and d: "field ''directPct'' (nds ! 1)
             = Some (JFloat (if (- 5 :: real) \<noteq> 0
                 then \<bar>or_zero (direct_result ([node_root, node_upstream] ! 1)) / \<bar>- 5\<bar>\<bar> * 100
                 else \<bar>or_zero (direct_result ([node_root, node_upstream] ! 1))\<bar> * 100))"
    and u: "field ''upstreamPct'' (nds ! 1)
             = Some (JFloat (if (- 5 :: real) \<noteq> 0
                 then \<bar>or_zero (total_result ([node_root, node_upstream] ! 1)) / \<bar>- 5\<bar>\<bar> * 100
                 else \<bar>or_zero (total_result ([node_root, node_upstream] ! 1))\<bar> * 100))"
    by blast
  have "nds = map (node_dict (abs_total (- 5)) (root_index demo_graph)) [node_root, node_upstream]"
    using n by (simp add: field_shape_response)
  then have "nds ! 1 = node_dict (abs_total (- 5)) (Some 7) node_upstream"
    by (simp add: demo_graph_def)
  then show ?thesis using d u by (simp add: node_upstream_def or_zero_def)
qed

text \<open>
  Claim C2, as stated, fails for the total impact 0: line 292 replaces the divisor by 1.0,
  so the root node of the example graph, of direct result 1, gets \<^verbatim>\<open>directPct\<close> 100. That
  is no share relative to \<open>\<bar>0\<bar>\<close>: the quotient by zero is undefined in Python (it is 0
  in HOL), and 100 times \<open>\<bar>0\<bar>\<close> is not the direct result times 100.
\<close>

theorem zero_total_percentage_counterexample:
  "field ''totalImpact'' (shape_response 0 ''kg'' cat_water demo_graph [node_root, node_upstream])
     = Some (JFloat 0)
   \<and> field ''nodes'' (shape_response 0 ''kg'' cat_water demo_graph [node_root, node_upstream])
     = Some (JList [node_dict 1 (Some 7) node_root, node_dict 1 (Some 7) node_upstream])
   \<and> or_zero (direct_result node_root) = 1
   \<and> field ''directPct'' (node_dict 1 (Some 7) node_root) = Some (JFloat 100)
   \<and> JFloat 100 \<noteq> JFloat (\<bar>1 / \<bar>0\<bar>\<bar> * 100)
   \<and> (100 :: real) * \<bar>0\<bar> \<noteq> \<bar>1\<bar> * 100"
  by (simp add: field_shape_response field_node_dict abs_total_def demo_graph_def node_root_def
      or_zero_def pct_def)

section \<open>The bodies the Sankey endpoint returns\<close>

lemma bnd_Inr:
  "snd (bnd m f) = Inr b \<Longrightarrow> \<exists>a. snd m = Inr a \<and> snd (f a) = Inr b"
  by (cases "snd m") (simp_all add: bnd_def)

lemma ret_Inr: "snd (ret v) = Inr b \<longleftrightarrow> v = b"
  by (simp add: ret_def)

lemma raise_Inr: "snd (raise e) \<noteq> Inr b"
  by (simp add: raise_def)

lemma sankey_of_target_Inr:
  assumes "snd (sankey_of_target cl res c mx ms) = Inr body"
  shows "body = empty_result \<or> (\<exists>t u g n ns. body = shape_response t u c g (n # ns))"
  using assms unfolding sankey_of_target_def
  by (auto dest!: bnd_Inr simp: ret_Inr split: option.splits list.splits) blast+

lemma sankey_of_result_Inr:
  assumes "snd (sankey_of_result cl res cid mx ms) = Inr body"
  shows "body = empty_result \<or> (\<exists>t u c g n ns. body = shape_response t u c g (n # ns))"
  using assms unfolding sankey_of_result_def
  by (auto dest!: bnd_Inr sankey_of_target_Inr simp: ret_Inr split: option.splits if_splits) blast+

lemma get_sankey_try_Inr:
  assumes "snd (get_sankey_try cl sid mid cid mx ms) = Inr body"
  shows "body = empty_result \<or> (\<exists>t u c g n ns. body = shape_response t u c g (n # ns))"
  using assms unfolding get_sankey_try_def
  by (auto dest!: bnd_Inr sankey_of_result_Inr simp: ret_Inr raise_Inr split: option.splits list.splits)
    blast+

lemma get_sankey_connected:
  assumes "get_client s = (Some cl, s', tr)"
  shows "fst (get_sankey s sid mid cid mx ms) = tr @ fst (get_sankey_try cl sid mid cid mx ms)"
    and "snd (get_sankey s sid mid cid mx ms) =
           (case snd (get_sankey_try cl sid mid cid mx ms) of
              Inl (Http h) \<Rightarrow> Inl h
            | Inl (Exc e) \<Rightarrow> Inl (HTTPException 500 e)
            | Inr body \<Rightarrow> Inr body)"
  using assms
  by (auto simp: get_sankey_def split: prod.splits sum.splits err.splits)

lemma get_sankey_Inr:
  assumes "snd (get_sankey s sid mid cid mx ms) = Inr body"
  shows "body = empty_result \<or> (\<exists>t u c g n ns. body = shape_response t u c g (n # ns))"
proof -
  obtain cl s' tr where g: "get_client s = (cl, s', tr)" by (cases "get_client s") auto
  show ?thesis
  proof (cases cl)
    case None
    with g assms show ?thesis by (simp add: get_sankey_def)
  next
    case (Some c)
    with g have "get_client s = (Some c, s', tr)" by simp
    from get_sankey_connected(2)[OF this, of sid mid cid mx ms] assms
    have "snd (get_sankey_try c sid mid cid mx ms) = Inr body"
      by (auto split: sum.splits err.splits)
    then show ?thesis by (rule get_sankey_try_Inr)
  qed
qed

section \<open>The Sankey endpoint up to the submitted calculation\<close>

lemma wait_for_result_ready:
  assumes "k < 240" and "\<forall>j<k. poll_pending res j" and "get_state res k = Inr st"
      and "is_ready st = Some True"
  shows "wait_for_result res 120 = (pending_polls k @ [GetState], Inr ())"
  using wait_loop_pending_prefix[of k res] wait_loop_ready[OF assms(1,3,4)] assms(1,2)
  by (simp add: wait_for_result_def)

lemma wait_for_result_error:
  assumes "k < 240" and "\<forall>j<k. poll_pending res j" and "get_state res k = Inr st"
      and "is_ready st \<noteq> Some True" and "truthy (state_error st)"
  shows "wait_for_result res 120 =
           (pending_polls k @ [GetState],
            Inl (Http (HTTPException 500 (''Calculation error: '' @ the (state_error st)))))"
  using wait_loop_pending_prefix[of k res] wait_loop_error[OF assms(1,3,4,5)] assms(1,2)
  by (simp add: wait_for_result_def)

lemma demo_wait: "wait_for_result demo_result 120 = (pending_polls 3 @ [GetState], Inr ())"
proof -
  have "\<forall>j<3. poll_pending demo_result j"
    by (simp add: poll_pending_def demo_defs truthy_def)
  moreover have "get_state demo_result 3 = Inr ready" by (simp add: demo_defs)
  moreover have "is_ready ready = Some True" by (simp add: ready_def)
  ultimately show ?thesis using wait_for_result_ready[of 3 demo_result ready] by simp
qed

lemma get_sankey_try_no_methods:
  assumes "cl_get_product_system cl sid = Inr (Some system)"
      and "cl_get_descriptors cl ImpactMethod = Inr []"
  shows "get_sankey_try cl sid mid cid mx ms =
           ([ClGet ProductSystem (Some sid), ClGetDescriptors ImpactMethod], Inr empty_result)"
  by (simp add: get_sankey_try_def bnd_def engine_def ret_def assms)

lemma get_sankey_try_calculated:
  assumes "cl_get_product_system cl sid = Inr (Some system)"
      and "cl_get_descriptors cl ImpactMethod = Inr (m0 # rest)"
      and "cl_calculate cl (mk_setup system (resolve_method m0 rest mid)) = Inr res"
  shows "get_sankey_try cl sid mid cid mx ms =
           ([ClGet ProductSystem (Some sid), ClGetDescriptors ImpactMethod,
             ClCalculate (mk_setup system (resolve_method m0 rest mid))]
              @ fst (sankey_of_result cl res cid mx ms),
            snd (sankey_of_result cl res cid mx ms))"
  by (simp add: get_sankey_try_def bnd_def engine_def assms)

lemma get_sankey_try_calculate_trace:
  assumes "cl_get_product_system cl sid = Inr (Some system)"
      and "cl_get_descriptors cl ImpactMethod = Inr (m0 # rest)"
  shows "\<exists>more. fst (get_sankey_try cl sid mid cid mx ms) =
           [ClGet ProductSystem (Some sid), ClGetDescriptors ImpactMethod,
            ClCalculate (mk_setup system (resolve_method m0 rest mid))] @ more"
  by (cases "cl_calculate cl (mk_setup system (resolve_method m0 rest mid))")
     (simp_all add: get_sankey_try_def bnd_def engine_def assms)

lemma mk_ref_id: "mk_ref m = m"
  by (simp add: mk_ref_def)

lemma find_SomeD: "find P xs = Some x \<Longrightarrow> x \<in> set xs \<and> P x"
  by (induction xs) (auto split: if_splits)

lemma resolve_method_cases:
  "\<exists>m\<in>set (m0 # rest). resolve_method m0 rest mid = mk_ref m
      \<and> (\<not> truthy mid \<or> (\<forall>m'\<in>set (m0 # rest). ref_id m' \<noteq> mid) \<longrightarrow> m = m0)
      \<and> (truthy mid \<and> (\<exists>m'\<in>set (m0 # rest). ref_id m' = mid) \<longrightarrow> ref_id m = mid)"
proof (cases "truthy mid \<and> (\<exists>m'\<in>set (m0 # rest). ref_id m' = mid)")
  case True
  then obtain m where m: "find (\<lambda>m. ref_id m = mid) (m0 # rest) = Some m"
    by (cases "find (\<lambda>m. ref_id m = mid) (m0 # rest)")
       (auto simp: find_None_iff simp del: find.simps)
  then have "m \<in> set (m0 # rest)" "ref_id m = mid"
    using find_SomeD[of "\<lambda>m. ref_id m = mid" "m0 # rest" m] by (simp_all del: find.simps)
  moreover have "resolve_method m0 rest mid = mk_ref m"
    using True m by (simp add: resolve_method_def)
  ultimately show ?thesis using True by blast
next
  case False
  then have "(if truthy mid then find (\<lambda>m. ref_id m = mid) (m0 # rest) else None) = None"
    by (auto simp: find_None_iff simp del: find.simps)
  then have "resolve_method m0 rest mid = mk_ref m0"
    by (simp add: resolve_method_def)
  then show ?thesis using False by auto
qed

lemma sankey_of_result_rejected:
  "truthy (error res) \<Longrightarrow> sankey_of_result cl res cid mx ms = ([], Inr empty_result)"
  by (simp add: sankey_of_result_def ret_def)

lemma sankey_of_result_poll_error:
  assumes "\<not> truthy (error res)" and "snd (wait_for_result res 120) = Inl e"
  shows "snd (sankey_of_result cl res cid mx ms) = Inl e"
  using assms by (simp add: sankey_of_result_def bnd_def)

section \<open>Properties of the responses\<close>

lemma demo_resolve:
  "resolve_impact_category demo_result [cat_climate, cat_water] None
     = ([GetTotalImpacts], Inr (Some cat_water))"
  by (simp add: resolve_impact_category_def truthy_def bnd_def engine_def ret_def demo_defs
      cat_amount_def or_zero_def)

lemma demo_target:
  "snd (sankey_of_target demo_client demo_result cat_water 25 0)
     = Inr (shape_response (- 5) ''kg CO2 eq'' cat_water demo_graph [node_root, node_upstream])"
  by (simp add: sankey_of_target_def bnd_def engine_def ret_def get_ref_unit_def or_str_def
      truthy_def or_zero_def demo_result_def demo_client_def demo_graph_def cat_water_def)

lemma demo_of_result:
  "snd (sankey_of_result demo_client demo_result None 25 0)
     = Inr (shape_response (- 5) ''kg CO2 eq'' cat_water demo_graph [node_root, node_upstream])"
proof -
  have e: "\<not> truthy (error demo_result)" by (simp add: demo_result_def truthy_def)
  have c: "get_impact_categories demo_result = Inr [cat_climate, cat_water]"
    by (simp add: demo_result_def)
  show ?thesis
    by (simp add: sankey_of_result_def e bnd_def demo_wait engine_def c demo_resolve demo_target)
qed

lemma demo_sankey:
  "snd (get_sankey demo_server ''s1'' None None 25 0)
     = Inr (shape_response (- 5) ''kg CO2 eq'' cat_water demo_graph [node_root, node_upstream])"
proof -
  have g: "get_client demo_server = (Some demo_client, demo_server\<lparr>client_var := Some demo_client\<rparr>, [NewClient])"
    by (simp add: get_client_def demo_server_def)
  have t: "get_sankey_try demo_client ''s1'' None None 25 0 =
           ([ClGet ProductSystem (Some ''s1''), ClGetDescriptors ImpactMethod,
             ClCalculate (mk_setup demo_system (resolve_method method_recipe [method_ef] None))]
              @ fst (sankey_of_result demo_client demo_result None 25 0),
            snd (sankey_of_result demo_client demo_result None 25 0))"
    by (rule get_sankey_try_calculated) (simp_all add: demo_client_def)
  show ?thesis
    using get_sankey_connected(2)[OF g, of "''s1''" None None 25 0]
    by (simp add: t demo_of_result)
qed

lemma rejected_sankey:
  "get_sankey rejecting_server ''s1'' None None 25 0
     = ([ClGet ProductSystem (Some ''s1''), ClGetDescriptors ImpactMethod,
         ClCalculate (mk_setup demo_system method_recipe)],
        Inr empty_result)"
proof -
  let ?cl = "demo_client\<lparr>cl_calculate := (\<lambda>setup. Inr rejected_result)\<rparr>"
  have g: "get_client rejecting_server = (Some ?cl, rejecting_server, [])"
    by (simp add: get_client_def rejecting_server_def)
  have r: "resolve_method method_recipe [method_ef] None = method_recipe"
    by (simp add: resolve_method_def truthy_def mk_ref_id)
  have t: "get_sankey_try ?cl ''s1'' None None 25 0 =
           ([ClGet ProductSystem (Some ''s1''), ClGetDescriptors ImpactMethod,
             ClCalculate (mk_setup demo_system (resolve_method method_recipe [method_ef] None))]
              @ fst (sankey_of_result ?cl rejected_result None 25 0),
            snd (sankey_of_result ?cl rejected_result None 25 0))"
    by (rule get_sankey_try_calculated) (simp_all add: demo_client_def)
  have e: "truthy (error rejected_result)"
    by (simp add: rejected_result_def truthy_def)
  show ?thesis
    using get_sankey_connected[OF g, of "''s1''" None None 25 0]
    by (simp add: t r sankey_of_result_rejected[OF e] prod_eq_iff)
qed



text \<open>
  Which edges are kept: those whose provider index and node index are both the index of
  a returned node and differ. An edge with an index of no returned node and a self-loop
  are dropped.
\<close>

lemma shape_response_links_dropped:
  assumes "edges g = Some es"
  shows "\<exists>pos. field ''links'' (shape_response t u c g ns) =
           Some (JList (map (\<lambda>e. link_dict (abs_total t) (pos (provider_index e)) (pos (node_index e)) e)
             (filter (\<lambda>e. provider_index e \<in> index ` set ns \<and> node_index e \<in> index ` set ns
                         \<and> provider_index e \<noteq> node_index e) es)))"
proof -
  let ?d = "abs_total t"
  let ?ip = "snd (nodes_loop ?d (root_index g) ns 0 ([], Map.empty))"
  have dom: "?ip k \<noteq> None \<longleftrightarrow> k \<in> index ` set ns" for k
    using nodes_loop_dom[of ?d "root_index g" ns 0 "[]" Map.empty k] by simp
  have inj: "?ip k1 \<noteq> ?ip k2 \<longleftrightarrow> k1 \<noteq> k2" if "?ip k1 \<noteq> None" "?ip k2 \<noteq> None" for k1 k2
  proof -
    from that obtain p1 p2 where p: "?ip k1 = Some p1" "?ip k2 = Some p2" by auto
    have i: "index (ns ! p1) = k1" "index (ns ! p2) = k2"
      using nodes_loop_pos[OF p(1)] nodes_loop_pos[OF p(2)] by simp_all
    show ?thesis
    proof (cases "k1 = k2")
      case True
      then show ?thesis by (simp only: simp_thms)
    next
      case False
      then have "p1 \<noteq> p2" using i by blast
      then show ?thesis using False by (simp only: p option.inject simp_thms)
    qed
  qed
  have "filter (\<lambda>e. ?ip (provider_index e) \<noteq> None \<and> ?ip (node_index e) \<noteq> None
                          \<and> ?ip (provider_index e) \<noteq> ?ip (node_index e)) es
        = filter (\<lambda>e. provider_index e \<in> index ` set ns \<and> node_index e \<in> index ` set ns
                         \<and> provider_index e \<noteq> node_index e) es"
    by (rule filter_cong[OF refl]) (metis dom inj)
  then have "field ''links'' (shape_response t u c g ns) =
           Some (JList (map (\<lambda>e. link_dict ?d (the (?ip (provider_index e))) (the (?ip (node_index e))) e)
             (filter (\<lambda>e. provider_index e \<in> index ` set ns \<and> node_index e \<in> index ` set ns
                         \<and> provider_index e \<noteq> node_index e) es)))"
    by (simp add: field_shape_response assms links_loop_kept)
  then show ?thesis by (intro exI[of _ "\<lambda>k. the (?ip k)"])
qed




text \<open>
  Claim C6. Every response body of the Sankey endpoint (every answer that is not an
  \<^verbatim>\<open>HTTPException\<close>), the empty result included, is a JSON object whose keys are exactly
  \<^verbatim>\<open>nodes\<close>, \<^verbatim>\<open>links\<close>, \<^verbatim>\<open>totalImpact\<close>, \<^verbatim>\<open>impactUnit\<close>, \<^verbatim>\<open>impactCategory\<close> and
  \<^verbatim>\<open>rootIndex\<close>.
\<close>

theorem response_keys:
  assumes "snd (get_sankey s sid mid cid mx ms) = Inr body"
  shows "keys body = Some [''nodes'', ''links'', ''totalImpact'', ''impactUnit'',
                           ''impactCategory'', ''rootIndex'']"
  using get_sankey_Inr[OF assms]
  by (auto simp: keys_def empty_result_def shape_response_def Let_def)

text \<open>
  The theorem of C6 on the response of the example engine and on the empty result
  returned for a calculation rejected at submission.
\<close>

theorem response_keys_witness:
  "snd (get_sankey demo_server ''s1'' None None 25 0)
     = Inr (shape_response (- 5) ''kg CO2 eq'' cat_water demo_graph [node_root, node_upstream])
   \<and> keys (shape_response (- 5) ''kg CO2 eq'' cat_water demo_graph [node_root, node_upstream])
     = Some [''nodes'', ''links'', ''totalImpact'', ''impactUnit'', ''impactCategory'', ''rootIndex'']
   \<and> snd (get_sankey rejecting_server ''s1'' None None 25 0) = Inr empty_result
   \<and> keys empty_result
     = Some [''nodes'', ''links'', ''totalImpact'', ''impactUnit'', ''impactCategory'', ''rootIndex'']"
proof -
  have r: "snd (get_sankey rejecting_server ''s1'' None None 25 0) = Inr empty_result"
    by (simp add: rejected_sankey)
  show ?thesis
    using response_keys[OF demo_sankey] response_keys[OF r] demo_sankey r by simp
qed

section \<open>Errors, connection and impact method\<close>

text \<open>
  Claim C4, as stated, fails for an error reported at submission: lines 246-248 log it
  and return the empty result, so the endpoint answers with a normal body and not with
  HTTP 500.
\<close>

theorem submission_error_counterexample:
  "get_client rejecting_server
     = (Some (demo_client\<lparr>cl_calculate := (\<lambda>setup. Inr rejected_result)\<rparr>), rejecting_server, [])
   \<and> cl_calculate (demo_client\<lparr>cl_calculate := (\<lambda>setup. Inr rejected_result)\<rparr>)
        (mk_setup demo_system method_recipe) = Inr rejected_result
   \<and> error rejected_result = Some ''no such target''
   \<and> get_sankey rejecting_server ''s1'' None None 25 0
       = ([ClGet ProductSystem (Some ''s1''), ClGetDescriptors ImpactMethod,
           ClCalculate (mk_setup demo_system method_recipe)],
          Inr empty_result)"
proof -
  have "get_client rejecting_server
     = (Some (demo_client\<lparr>cl_calculate := (\<lambda>setup. Inr rejected_result)\<rparr>), rejecting_server, [])"
    by (simp add: get_client_def rejecting_server_def)
  moreover have "cl_calculate (demo_client\<lparr>cl_calculate := (\<lambda>setup. Inr rejected_result)\<rparr>)
        (mk_setup demo_system method_recipe) = Inr rejected_result"
    by simp
  moreover have "error rejected_result = Some ''no such target''"
    by (simp add: rejected_result_def)
  ultimately show ?thesis using rejected_sankey by blast
qed

text \<open>
  Claim C4, amended. For a connected engine, a product system that is found, a
  descriptor list that is not empty and a calculation that is submitted: when the
  submitted calculation reports an error at submission, the Sankey endpoint answers with
  the empty result; when it reports none at submission and the first poll, among the 240,
  that does not find it running finds a state that is not ready and reports an error, the
  endpoint raises HTTP 500 whose detail is \<^verbatim>\<open>Calculation error: \<close> followed by that error.
\<close>

theorem calculation_errors_mapped:
  assumes "get_client s = (Some cl, s', tr)"
      and "cl_get_product_system cl sid = Inr (Some system)"
      and "cl_get_descriptors cl ImpactMethod = Inr (m0 # rest)"
      and "cl_calculate cl (mk_setup system (resolve_method m0 rest mid)) = Inr res"
  shows "(truthy (error res) \<longrightarrow> snd (get_sankey s sid mid cid mx ms) = Inr empty_result)
       \<and> (\<forall>k st. \<not> truthy (error res) \<and> k < 240 \<and> (\<forall>j<k. poll_pending res j)
                  \<and> get_state res k = Inr st \<and> is_ready st \<noteq> Some True
                  \<and> truthy (state_error st)
            \<longrightarrow> snd (get_sankey s sid mid cid mx ms)
                  = Inl (HTTPException 500 (''Calculation error: '' @ the (state_error st))))"
proof (intro conjI allI impI)
  assume "truthy (error res)"
  then show "snd (get_sankey s sid mid cid mx ms) = Inr empty_result"
    using get_sankey_connected(2)[OF assms(1), of sid mid cid mx ms]
    by (simp add: get_sankey_try_calculated[OF assms(2,3,4)] sankey_of_result_rejected)
next
  fix k st
  assume a: "\<not> truthy (error res) \<and> k < 240 \<and> (\<forall>j<k. poll_pending res j)
                  \<and> get_state res k = Inr st \<and> is_ready st \<noteq> Some True
                  \<and> truthy (state_error st)"
  then have "snd (wait_for_result res 120)
      = Inl (Http (HTTPException 500 (''Calculation error: '' @ the (state_error st))))"
    using wait_for_result_error[of k res st] by simp
  then have "snd (sankey_of_result cl res cid mx ms)
      = Inl (Http (HTTPException 500 (''Calculation error: '' @ the (state_error st))))"
    using a by (intro sankey_of_result_poll_error) simp_all
  then show "snd (get_sankey s sid mid cid mx ms)
                  = Inl (HTTPException 500 (''Calculation error: '' @ the (state_error st)))"
    using get_sankey_connected(2)[OF assms(1), of sid mid cid mx ms]
    by (simp add: get_sankey_try_calculated[OF assms(2,3,4)])
qed

text \<open>
  The theorem of C4 on a calculation rejected at submission and on one that runs out of
  memory at the third poll.
\<close>

theorem calculation_errors_mapped_witness:
  "snd (get_sankey rejecting_server ''s1'' None None 25 0) = Inr empty_result
   \<and> snd (get_sankey failing_server ''s1'' None None 25 0)
       = Inl (HTTPException 500 ''Calculation error: out of memory'')"
proof -
  let ?rc = "demo_client\<lparr>cl_calculate := (\<lambda>setup. Inr rejected_result)\<rparr>"
  let ?fc = "demo_client\<lparr>cl_calculate := (\<lambda>setup. Inr failing_result)\<rparr>"
  have g1: "get_client rejecting_server = (Some ?rc, rejecting_server, [])"
    by (simp add: get_client_def rejecting_server_def)
  have g2: "get_client failing_server = (Some ?fc, failing_server, [])"
    by (simp add: get_client_def failing_server_def)
  have p1: "cl_get_product_system ?rc ''s1'' = Inr (Some demo_system)"
    and d1: "cl_get_descriptors ?rc ImpactMethod = Inr (method_recipe # [method_ef])"
    and c1: "cl_calculate ?rc (mk_setup demo_system (resolve_method method_recipe [method_ef] None))
              = Inr rejected_result"
    by (simp_all add: demo_client_def)
  have p2: "cl_get_product_system ?fc ''s1'' = Inr (Some demo_system)"
    and d2: "cl_get_descriptors ?fc ImpactMethod = Inr (method_recipe # [method_ef])"
    and c2: "cl_calculate ?fc (mk_setup demo_system (resolve_method method_recipe [method_ef] None))
              = Inr failing_result"
    by (simp_all add: demo_client_def)
  have e1: "truthy (error rejected_result)"
    by (simp add: rejected_result_def truthy_def)
  have e2: "\<not> truthy (error failing_result)"
    by (simp add: failing_result_def demo_result_def truthy_def)
  have pend: "\<forall>j<2. poll_pending failing_result j"
    by (simp add: poll_pending_def demo_defs truthy_def)
  have st: "get_state failing_result 2 = Inr out_of_memory" by (simp add: demo_defs)
  have oom: "is_ready out_of_memory \<noteq> Some True" "truthy (state_error out_of_memory)"
    "the (state_error out_of_memory) = ''out of memory''"
    by (simp_all add: out_of_memory_def truthy_def)
  note t1 = calculation_errors_mapped[OF g1 p1 d1 c1, where cid = None and mx = 25 and ms = 0,
      THEN conjunct1, rule_format]
  note t2 = calculation_errors_mapped[OF g2 p2 d2 c2, where cid = None and mx = 25 and ms = 0,
      THEN conjunct2, rule_format, of 2 out_of_memory]
  have "snd (get_sankey rejecting_server ''s1'' None None 25 0) = Inr empty_result"
    using t1 e1 by simp
  moreover have "snd (get_sankey failing_server ''s1'' None None 25 0)
       = Inl (HTTPException 500 (''Calculation error: '' @ the (state_error out_of_memory)))"
    using t2 e2 pend st oom(1,2) by simp
  ultimately show ?thesis by (simp add: oom(3))
qed

text \<open>
  Claim C7. When \<^verbatim>\<open>get_client\<close> returns no handle, the status endpoint answers
  \<^verbatim>\<open>{"status": "disconnected"}\<close>, and the descriptor listing, the method category listing
  and the Sankey endpoint raise HTTP 503 with the detail \<^verbatim>\<open>openLCA not connected\<close>; the only
  call made is the attempt to create the client.
\<close>

theorem not_connected_responses:
  assumes "fst (get_client s) = None"
  shows "get_status s = ([NewClient], Inr (JDict [(''status'', JStr ''disconnected'')]))
       \<and> get_descriptors s model_type = ([NewClient], Inl (HTTPException 503 ''openLCA not connected''))
       \<and> get_method_categories s method_id
           = ([NewClient], Inl (HTTPException 503 ''openLCA not connected''))
       \<and> get_sankey s sid mid cid mx ms
           = ([NewClient], Inl (HTTPException 503 ''openLCA not connected''))"
proof -
  have g: "get_client s = (None, s, [NewClient])"
    using assms by (auto simp: get_client_def split: option.splits sum.splits)
  show ?thesis
    by (simp add: get_status_def get_descriptors_def get_method_categories_def get_sankey_def g
        not_connected_def)
qed

text \<open>
  The theorem of C7 on an engine that refuses the connection.
\<close>

theorem not_connected_responses_witness:
  "fst (get_client offline_server) = None
   \<and> get_status offline_server = ([NewClient], Inr (JDict [(''status'', JStr ''disconnected'')]))
   \<and> get_descriptors offline_server ''ProductSystem''
       = ([NewClient], Inl (HTTPException 503 ''openLCA not connected''))
   \<and> get_method_categories offline_server ''m1''
       = ([NewClient], Inl (HTTPException 503 ''openLCA not connected''))
   \<and> get_sankey offline_server ''s1'' None None 25 0
       = ([NewClient], Inl (HTTPException 503 ''openLCA not connected''))"
proof -
  have h: "fst (get_client offline_server) = None"
    by (simp add: get_client_def offline_server_def)
  show ?thesis
    using not_connected_responses[OF h, of "''ProductSystem''" "''m1''" "''s1''" None None 25 0] h
    by simp
qed

lemma resolve_method_found:
  assumes "truthy mid" and "\<exists>m'\<in>set (m0 # rest). ref_id m' = mid"
  shows "find (\<lambda>m. ref_id m = mid) (m0 # rest) = Some (resolve_method m0 rest mid)"
proof -
  obtain m where m: "find (\<lambda>m. ref_id m = mid) (m0 # rest) = Some m"
    using assms(2)
    by (cases "find (\<lambda>m. ref_id m = mid) (m0 # rest)")
       (auto simp: find_None_iff simp del: find.simps)
  then have "resolve_method m0 rest mid = m"
    using assms(1) by (simp add: resolve_method_def mk_ref_id del: find.simps)
  then show ?thesis using m by (simp del: find.simps)
qed

lemma resolve_method_first:
  assumes "\<not> truthy mid \<or> (\<forall>m'\<in>set (m0 # rest). ref_id m' \<noteq> mid)"
  shows "resolve_method m0 rest mid = m0"
proof -
  have "(if truthy mid then find (\<lambda>m. ref_id m = mid) (m0 # rest) else None) = None"
    using assms by (auto simp: find_None_iff simp del: find.simps)
  then show ?thesis by (simp add: resolve_method_def mk_ref_id del: find.simps)
qed

lemma resolve_method_in_list: "resolve_method m0 rest mid \<in> set (m0 # rest)"
  using resolve_method_cases[of m0 rest mid] by (auto simp: mk_ref_id)

text \<open>
  Claim C10. For a connected engine and a product system that is found: when the list of
  impact method descriptors is empty, the Sankey endpoint returns the empty result and
  makes no calculation; when it is not empty, the endpoint submits a calculation setup
  whose target is the product system and whose impact method is a descriptor of the list:
  the first descriptor when the supplied id is absent, empty or matches no descriptor, and
  the first descriptor of the supplied id otherwise.
\<close>

theorem method_always_resolved:
  assumes "get_client s = (Some cl, s', tr)"
      and "cl_get_product_system cl sid = Inr (Some system)"
      and "cl_get_descriptors cl ImpactMethod = Inr methods"
  shows "(methods = [] \<longrightarrow>
            get_sankey s sid mid cid mx ms
              = (tr @ [ClGet ProductSystem (Some sid), ClGetDescriptors ImpactMethod],
                 Inr empty_result))
       \<and> (methods \<noteq> [] \<longrightarrow>
            (\<exists>submitted more.
                 fst (get_sankey s sid mid cid mx ms)
                   = tr @ [ClGet ProductSystem (Some sid), ClGetDescriptors ImpactMethod,
                           ClCalculate submitted] @ more
               \<and> ref_id (target submitted) = system_id system
               \<and> ref_name (target submitted) = system_name system
               \<and> impact_method submitted \<in> set methods
               \<and> (\<not> truthy mid \<or> (\<forall>m'\<in>set methods. ref_id m' \<noteq> mid)
                    \<longrightarrow> impact_method submitted = hd methods)
               \<and> (truthy mid \<and> (\<exists>m'\<in>set methods. ref_id m' = mid)
                    \<longrightarrow> find (\<lambda>m. ref_id m = mid) methods = Some (impact_method submitted)
                        \<and> ref_id (impact_method submitted) = mid)))"
proof (intro conjI impI)
  assume "methods = []"
  then show "get_sankey s sid mid cid mx ms
              = (tr @ [ClGet ProductSystem (Some sid), ClGetDescriptors ImpactMethod],
                 Inr empty_result)"
    using get_sankey_connected[OF assms(1), of sid mid cid mx ms]
      get_sankey_try_no_methods[OF assms(2), of mid cid mx ms] assms(3)
    by (simp add: prod_eq_iff)
next
  assume "methods \<noteq> []"
  then obtain m0 rest where ms: "methods = m0 # rest" by (cases methods) auto
  define submitted where "submitted = mk_setup system (resolve_method m0 rest mid)"
  from get_sankey_try_calculate_trace[OF assms(2) assms(3)[unfolded ms], of mid cid mx ms]
  obtain more where
    "fst (get_sankey_try cl sid mid cid mx ms) =
           [ClGet ProductSystem (Some sid), ClGetDescriptors ImpactMethod,
            ClCalculate submitted] @ more"
    unfolding submitted_def by blast
  then have trace: "fst (get_sankey s sid mid cid mx ms)
                   = tr @ [ClGet ProductSystem (Some sid), ClGetDescriptors ImpactMethod,
                           ClCalculate submitted] @ more"
    using get_sankey_connected(1)[OF assms(1), of sid mid cid mx ms] by simp
  have im: "impact_method submitted = resolve_method m0 rest mid"
    by (simp add: submitted_def mk_setup_def)
  have tg: "ref_id (target submitted) = system_id system" "ref_name (target submitted) = system_name system"
    by (simp_all add: submitted_def mk_setup_def to_ref_def)
  have mem: "impact_method submitted \<in> set methods"
    unfolding im ms by (rule resolve_method_in_list)
  have fst_case: "impact_method submitted = hd methods"
    if "\<not> truthy mid \<or> (\<forall>m'\<in>set methods. ref_id m' \<noteq> mid)"
    using resolve_method_first[of mid m0 rest] that unfolding im ms by simp
  have found: "find (\<lambda>m. ref_id m = mid) methods = Some (impact_method submitted)
                 \<and> ref_id (impact_method submitted) = mid"
    if "truthy mid \<and> (\<exists>m'\<in>set methods. ref_id m' = mid)"
  proof -
    have f: "find (\<lambda>m. ref_id m = mid) methods = Some (impact_method submitted)"
      using resolve_method_found[of mid m0 rest] that unfolding im ms by blast
    from find_SomeD[OF f] show ?thesis using f by blast
  qed
  show "\<exists>submitted more.
                 fst (get_sankey s sid mid cid mx ms)
                   = tr @ [ClGet ProductSystem (Some sid), ClGetDescriptors ImpactMethod,
                           ClCalculate submitted] @ more
               \<and> ref_id (target submitted) = system_id system
               \<and> ref_name (target submitted) = system_name system
               \<and> impact_method submitted \<in> set methods
               \<and> (\<not> truthy mid \<or> (\<forall>m'\<in>set methods. ref_id m' \<noteq> mid)
                    \<longrightarrow> impact_method submitted = hd methods)
               \<and> (truthy mid \<and> (\<exists>m'\<in>set methods. ref_id m' = mid)
                    \<longrightarrow> find (\<lambda>m. ref_id m = mid) methods = Some (impact_method submitted)
                        \<and> ref_id (impact_method submitted) = mid)"
    using trace tg mem fst_case found by (intro exI[of _ submitted] exI[of _ more]) blast
qed

text \<open>
  The theorem of C10 on an engine without impact methods and on the example engine, with
  an id that matches no descriptor (the first descriptor is submitted) and with the id of
  the second descriptor (the second descriptor is submitted).
\<close>

theorem method_always_resolved_witness:
  "get_sankey empty_db_server ''s1'' (Some ''m2'') None 25 0
     = ([ClGet ProductSystem (Some ''s1''), ClGetDescriptors ImpactMethod], Inr empty_result)
   \<and> (\<exists>submitted more. fst (get_sankey demo_server ''s1'' (Some ''m9'') None 25 0)
         = [NewClient, ClGet ProductSystem (Some ''s1''), ClGetDescriptors ImpactMethod,
            ClCalculate submitted] @ more
       \<and> impact_method submitted = \<lparr>ref_id = Some ''m1'', ref_name = Some ''ReCiPe''\<rparr>
       \<and> ref_id (target submitted) = Some ''s1'')
   \<and> (\<exists>submitted more. fst (get_sankey demo_server ''s1'' (Some ''m2'') None 25 0)
         = [NewClient, ClGet ProductSystem (Some ''s1''), ClGetDescriptors ImpactMethod,
            ClCalculate submitted] @ more
       \<and> impact_method submitted = \<lparr>ref_id = Some ''m2'', ref_name = Some ''EF 3.0''\<rparr>
       \<and> ref_id (target submitted) = Some ''s1'')"
proof -
  let ?ec = "demo_client\<lparr>cl_get_descriptors := (\<lambda>t. Inr [])\<rparr>"
  have g0: "get_client empty_db_server = (Some ?ec, empty_db_server, [])"
    by (simp add: get_client_def empty_db_server_def)
  have p0: "cl_get_product_system ?ec ''s1'' = Inr (Some demo_system)"
    and d0: "cl_get_descriptors ?ec ImpactMethod = Inr []"
    by (simp_all add: demo_client_def)
  have g1: "get_client demo_server
              = (Some demo_client, demo_server\<lparr>client_var := Some demo_client\<rparr>, [NewClient])"
    by (simp add: get_client_def demo_server_def)
  have p1: "cl_get_product_system demo_client ''s1'' = Inr (Some demo_system)"
    and d1: "cl_get_descriptors demo_client ImpactMethod = Inr [method_recipe, method_ef]"
    by (simp_all add: demo_client_def)
  note e = method_always_resolved[OF g0 p0 d0, where mid = "Some ''m2''" and cid = None and mx = 25
      and ms = 0, THEN conjunct1, rule_format]
  have first: "get_sankey empty_db_server ''s1'' (Some ''m2'') None 25 0
     = ([ClGet ProductSystem (Some ''s1''), ClGetDescriptors ImpactMethod], Inr empty_result)"
    using e by simp
  have ne: "[method_recipe, method_ef] \<noteq> []" by simp
  have nomatch: "\<not> truthy (Some ''m9'')
                   \<or> (\<forall>m'\<in>set [method_recipe, method_ef]. ref_id m' \<noteq> Some ''m9'')"
    by (simp add: method_recipe_def method_ef_def)
  have match: "truthy (Some ''m2'') \<and> (\<exists>m'\<in>set [method_recipe, method_ef]. ref_id m' = Some ''m2'')"
    by (simp add: truthy_def method_recipe_def method_ef_def)
  from method_always_resolved[OF g1 p1 d1, where mid = "Some ''m9''" and cid = None and mx = 25
      and ms = 0, THEN conjunct2, rule_format, OF ne]
  obtain submitted more where
    a: "fst (get_sankey demo_server ''s1'' (Some ''m9'') None 25 0)
          = [NewClient] @ [ClGet ProductSystem (Some ''s1''), ClGetDescriptors ImpactMethod,
                           ClCalculate submitted] @ more"
    and t: "ref_id (target submitted) = system_id demo_system"
    and b: "\<not> truthy (Some ''m9'') \<or> (\<forall>m'\<in>set [method_recipe, method_ef]. ref_id m' \<noteq> Some ''m9'')
              \<longrightarrow> impact_method submitted = hd [method_recipe, method_ef]"
    by blast
  have "impact_method submitted = \<lparr>ref_id = Some ''m1'', ref_name = Some ''ReCiPe''\<rparr>"
    using b nomatch by (simp add: method_recipe_def)
  with a t have second: "\<exists>submitted more. fst (get_sankey demo_server ''s1'' (Some ''m9'') None 25 0)
         = [NewClient, ClGet ProductSystem (Some ''s1''), ClGetDescriptors ImpactMethod,
            ClCalculate submitted] @ more
       \<and> impact_method submitted = \<lparr>ref_id = Some ''m1'', ref_name = Some ''ReCiPe''\<rparr>
       \<and> ref_id (target submitted) = Some ''s1''"
    by (intro exI[of _ submitted] exI[of _ more]) (simp add: demo_system_def)
  from method_always_resolved[OF g1 p1 d1, where mid = "Some ''m2''" and cid = None and mx = 25
      and ms = 0, THEN conjunct2, rule_format, OF ne]
  obtain submitted more where
    a: "fst (get_sankey demo_server ''s1'' (Some ''m2'') None 25 0)
          = [NewClient] @ [ClGet ProductSystem (Some ''s1''), ClGetDescriptors ImpactMethod,
                           ClCalculate submitted] @ more"
    and t: "ref_id (target submitted) = system_id demo_system"
    and c: "truthy (Some ''m2'') \<and> (\<exists>m'\<in>set [method_recipe, method_ef]. ref_id m' = Some ''m2'')
              \<longrightarrow> find (\<lambda>m. ref_id m = Some ''m2'') [method_recipe, method_ef]
                    = Some (impact_method submitted)
                  \<and> ref_id (impact_method submitted) = Some ''m2''"
    by blast
  have "find (\<lambda>m. ref_id m = Some ''m2'') [method_recipe, method_ef] = Some (impact_method submitted)"
    using c match by blast
  then have "impact_method submitted = \<lparr>ref_id = Some ''m2'', ref_name = Some ''EF 3.0''\<rparr>"
    by (simp add: method_recipe_def method_ef_def)
  with a t have third: "\<exists>submitted more. fst (get_sankey demo_server ''s1'' (Some ''m2'') None 25 0)
         = [NewClient, ClGet ProductSystem (Some ''s1''), ClGetDescriptors ImpactMethod,
            ClCalculate submitted] @ more
       \<and> impact_method submitted = \<lparr>ref_id = Some ''m2'', ref_name = Some ''EF 3.0''\<rparr>
       \<and> ref_id (target submitted) = Some ''s1''"
    by (intro exI[of _ submitted] exI[of _ more]) (simp add: demo_system_def)
  show ?thesis using first second third by blast
qed

end
